theory Spec2Isabelle
  imports Main "HOL-Library.Sublist"
begin

section \<open>Python strings and integers\<close>

text \<open>
  Python \<^verbatim>\<open>str\<close> and \<^verbatim>\<open>bytes\<close> values are character lists. The texts this
  program handles (archive file names, language codes, decimal numbers, JSON lines) are
  ASCII, where a character is a code point and a byte at once.
\<close>

type_synonym bytes = string

text \<open>\<^verbatim>\<open>s.endswith(suffix)\<close> and \<^verbatim>\<open>sub in s\<close> (substring containment).\<close>

definition endswith :: "string \<Rightarrow> string \<Rightarrow> bool" where
  "endswith s suf = suffix suf s"

definition str_contains :: "string \<Rightarrow> string \<Rightarrow> bool" where
  "str_contains s sub = sublist sub s"

text \<open>
  \<^verbatim>\<open>str(n)\<close> for an integer, as an f-string field \<^verbatim>\<open>{n}\<close> renders it: decimal
  digits, most significant first, no leading zero, a minus sign when negative. (The
  interpreter's configurable ceiling on the number of digits of a conversion is not part
  of the model: integers are unbounded.)
\<close>

definition digit_char :: "nat \<Rightarrow> char" where
  "digit_char d = ''0123456789'' ! d"

function str_nat :: "nat \<Rightarrow> string" where
  "str_nat n = (if n < 10 then [digit_char n] else str_nat (n div 10) @ [digit_char (n mod 10)])"
  by pat_completeness auto
termination
  by (relation "measure id") auto

declare str_nat.simps [simp del]

definition str_int :: "int \<Rightarrow> string" where
  "str_int i = (if i < 0 then CHR ''-'' # str_nat (nat (- i)) else str_nat (nat i))"

text \<open>
  \<^verbatim>\<open>s.strip()\<close> removes the leading and trailing whitespace; the ASCII characters that
  count as whitespace are tab, line feed, vertical tab, form feed, carriage return, the
  four separators 0x1C to 0x1F and the space.
\<close>

definition isspace :: "char \<Rightarrow> bool" where
  "isspace c = (c \<in> set [CHR 0x09, CHR 0x0A, CHR 0x0B, CHR 0x0C, CHR 0x0D,
                            CHR 0x1C, CHR 0x1D, CHR 0x1E, CHR 0x1F, CHR 0x20])"

definition strip :: "string \<Rightarrow> string" where
  "strip s = rev (dropWhile isspace (rev (dropWhile isspace s)))"

text \<open>
  \<^verbatim>\<open>s.split(sep)\<close> for a one-character separator: the pieces between the separators,
  empty pieces kept, so that the result is never empty.
\<close>

fun split_acc :: "char \<Rightarrow> string \<Rightarrow> string \<Rightarrow> string list" where
  "split_acc sep acc [] = [rev acc]"
| "split_acc sep acc (c # cs) =
     (if c = sep then rev acc # split_acc sep [] cs else split_acc sep (c # acc) cs)"

definition split :: "string \<Rightarrow> char \<Rightarrow> string list" where
  "split s sep = split_acc sep [] s"

text \<open>
  \<^verbatim>\<open>int(text)\<close> for a string: surrounding whitespace is dropped, one sign is allowed,
  and the rest is decimal digits, where single underscores may stand between digits.
  Anything else raises \<^verbatim>\<open>ValueError\<close>. The whitespace that \<^verbatim>\<open>int\<close> drops is narrower
  than that of \<^verbatim>\<open>strip\<close>: among the ASCII characters it is tab, line feed, vertical tab,
  form feed, carriage return and the space, and not the separators 0x1C to 0x1F. (As for
  \<^verbatim>\<open>str\<close>, the interpreter's configurable ceiling on the number of digits is not part of
  the model.)
\<close>

definition int_space :: "char \<Rightarrow> bool" where
  "int_space c = (c \<in> set [CHR 0x09, CHR 0x0A, CHR 0x0B, CHR 0x0C, CHR 0x0D, CHR 0x20])"

definition int_strip :: "string \<Rightarrow> string" where
  "int_strip s = rev (dropWhile int_space (rev (dropWhile int_space s)))"

definition digit_val :: "char \<Rightarrow> nat option" where
  "digit_val c = (if c \<in> set ''0123456789'' then Some (of_char c - 48) else None)"

fun int_digits :: "nat \<Rightarrow> bool \<Rightarrow> string \<Rightarrow> nat option" where
  "int_digits acc after_digit [] = (if after_digit then Some acc else None)"
| "int_digits acc after_digit (c # cs) =
     (if c = CHR ''_'' then (if after_digit then int_digits acc False cs else None)
      else case digit_val c of
             None \<Rightarrow> None
           | Some d \<Rightarrow> int_digits (10 * acc + d) True cs)"

definition signed_digits :: "string \<Rightarrow> int option" where
  "signed_digits s =
     (case s of
        [] \<Rightarrow> None
      | c # cs \<Rightarrow>
          if c = CHR ''-'' then map_option (\<lambda>n. - int n) (int_digits 0 False cs)
          else if c = CHR ''+'' then map_option int (int_digits 0 False cs)
          else map_option int (int_digits 0 False s))"

section \<open>Data model\<close>

text \<open>The severities the program logs at, and one constructor per logging call of the source.\<close>

datatype level = DEBUG | INFO | SUCCESS | WARNING | CRITICAL

datatype message =
    SkippingRobots
      \<comment> \<open>\<^verbatim>\<open>"Skipping robots.txt"\<close>\<close>
  | SkippingNonGerman string
      \<comment> \<open>\<^verbatim>\<open>f"Skipping non-German site (i.e., {bcp47_code=})"\<close>\<close>
  | DownloadFrom string
      \<comment> \<open>\<^verbatim>\<open>f"Download from {url}"\<close>\<close>
  | FailedToFetchData int
      \<comment> \<open>\<^verbatim>\<open>f"Failed to fetch data: {response.status_code}"\<close>\<close>
  | NoValidWarcRecord
      \<comment> \<open>\<^verbatim>\<open>"No valid WARC record found in the given records"\<close>\<close>
  | FailedToFetchIndex int
      \<comment> \<open>\<^verbatim>\<open>f"Failed to fetch index: {response.status_code}"\<close>\<close>
  | ReceivedRecords nat
      \<comment> \<open>\<^verbatim>\<open>f"Received {len(records):_d} records from Common Crawl"\<close>\<close>
  | NoContentAttribute
      \<comment> \<open>\<^verbatim>\<open>"HTML language meta-tag doesn't contain 'content'."\<close>\<close>
  | NotMarkedAsGerman string
      \<comment> \<open>\<^verbatim>\<open>f"Page is not marked as German, but {other_language}."\<close>\<close>
  | NoLanguageTag
      \<comment> \<open>\<^verbatim>\<open>"No language-tag found!"\<close>\<close>
  | NowWhat
      \<comment> \<open>\<^verbatim>\<open>"Now what?"\<close>\<close>

text \<open>The exceptions that can leave a function of the program.\<close>

datatype exn =
    RequestException
      \<comment> \<open>raised by \<^verbatim>\<open>requests.get\<close> when no response arrives\<close>
  | JSONDecodeError string
      \<comment> \<open>raised by \<^verbatim>\<open>json.loads\<close>, with the rejected text\<close>
  | KeyError string
      \<comment> \<open>raised by \<^verbatim>\<open>record[key]\<close>, with the missing key\<close>
  | ValueError string
      \<comment> \<open>raised by \<^verbatim>\<open>int(text)\<close>, with the rejected text\<close>
  | ArchiveLoadFailed
      \<comment> \<open>raised by the archive iterator on a stream it cannot decode\<close>

definition py_int :: "string \<Rightarrow> exn + int" where
  "py_int text = (case signed_digits (int_strip text) of
                    None \<Rightarrow> Inl (ValueError text)
                  | Some i \<Rightarrow> Inr i)"

text \<open>The keyword arguments of \<^verbatim>\<open>requests.get\<close>, and the response fields the program reads.\<close>

record request =
  url :: string
  params :: "(string \<times> string) list"
  headers :: "(string \<times> string) list"
  verify :: string
  stream :: bool

record response =
  status_code :: int
  resp_text :: string
  raw :: bytes

text \<open>
  What the program does to the outside world, in the order it does it: a logging call, or an
  HTTP request sent.
\<close>

datatype effect = Logged level message | HttpGet request

text \<open>
  An archive record as the program reads it (\<^verbatim>\<open>rec_type\<close>, and the bytes that
  \<^verbatim>\<open>content_stream().read()\<close> returns), and the run of the archive iterator over a
  byte stream: it yields records one at a time, and ends normally or with an exception.
\<close>

record warc_record =
  rec_type :: string
  content :: bytes

datatype archive_iteration =
    StopIteration
  | Raises exn
  | Yields warc_record archive_iteration

text \<open>
  A parsed markup document: tags with their attribute dictionary and children, and text
  nodes. An index record is the dictionary decoded from one JSON line.
\<close>

datatype element =
    Tag string "(string \<times> string) list" "element list"
  | NavigableString string

type_synonym index_record = "string \<rightharpoonup> string"

text \<open>
  The libraries and data the program is linked with: the language registry
  (\<^verbatim>\<open>bcp47.languages.items()\<close>, name and code), the certificate directory
  (\<^verbatim>\<open>str(CERTIFICATE_PATH)\<close>), the HTTP client, the JSON decoder, the archive iterator
  and the markup parser (the children of the parsed document). The server answers as a
  function of the request, or no response arrives and the client raises. The decoder's values
  are taken at the type the source annotates, \<^verbatim>\<open>dict[str, str]\<close>.
\<close>

record env =
  languages :: "(string \<times> string) list"
  CERTIFICATE_PATH :: string
  requests_get :: "request \<Rightarrow> exn + response"
  json_loads :: "string \<Rightarrow> exn + index_record"
  ArchiveIterator :: "bytes \<Rightarrow> archive_iteration"
  BeautifulSoup :: "bytes \<Rightarrow> element list"

definition INDEX_NAME :: string where
  "INDEX_NAME = ''CC-MAIN-2026-04''"

definition AGENT_NAME :: string where
  "AGENT_NAME = ''cc-get-started/1.0 (Example data retrieval script; yourname@example.com)''"

section \<open>The deny list\<close>

text \<open>
  \<^verbatim>\<open>NON_GERMAN_BCP47_CODES\<close>: the set comprehension over the registry, as the list of its
  distinct members. The order of the list stands for the order in which the set is iterated;
  it decides only which code a debug message names.
\<close>

definition NON_GERMAN_BCP47_CODES :: "env \<Rightarrow> string list" where
  "NON_GERMAN_BCP47_CODES e =
     remdups (map snd (filter (\<lambda>(bcp47_name, bcp47_code).
        \<not> str_contains bcp47_name ''German'' \<and> 5 \<le> length bcp47_code) (languages e)))"

section \<open>Fetching a page\<close>

text \<open>\<^verbatim>\<open>response.raise_for_status()\<close> raises for the statuses 400 to 599.\<close>

definition raise_for_status :: "response \<Rightarrow> bool" where
  "raise_for_status r = (400 \<le> status_code r \<and> status_code r < 600)"

definition range_header :: "int \<Rightarrow> int \<Rightarrow> string" where
  "range_header offset length' = ''bytes='' @ str_int offset @ ''-'' @ str_int (offset + length' - 1)"

definition page_request :: "env \<Rightarrow> string \<Rightarrow> int \<Rightarrow> int \<Rightarrow> request" where
  "page_request e file_name offset length' =
     \<lparr> url = ''https://data.commoncrawl.org/'' @ file_name,
       params = [],
       headers = [(''user-agent'', AGENT_NAME), (''Range'', range_header offset length')],
       verify = CERTIFICATE_PATH e @ ''/data.commoncrawl.org.pem'',
       stream = True \<rparr>"

text \<open>The loop over the archive records: the first record of type \<^verbatim>\<open>response\<close> ends it.\<close>

fun first_response :: "archive_iteration \<Rightarrow> exn + bytes option" where
  "first_response StopIteration = Inr None"
| "first_response (Raises x) = Inl x"
| "first_response (Yields warc_record rest) =
     (if rec_type warc_record = ''response'' then Inr (Some (content warc_record))
      else first_response rest)"

definition fetch_page :: "env \<Rightarrow> string \<Rightarrow> int \<Rightarrow> int \<Rightarrow> (exn + bytes option) \<times> effect list" where
  "fetch_page e file_name offset length' =
     (if endswith file_name ''robots.txt'' then (Inr None, [Logged DEBUG SkippingRobots])
      else case find (\<lambda>bcp47_code. str_contains file_name bcp47_code) (NON_GERMAN_BCP47_CODES e) of
        Some bcp47_code \<Rightarrow> (Inr None, [Logged DEBUG (SkippingNonGerman bcp47_code)])
      | None \<Rightarrow>
         (let req = page_request e file_name offset length';
              sent = [Logged INFO (DownloadFrom (url req)), HttpGet req]
          in case requests_get e req of
               Inl x \<Rightarrow> (Inl x, sent)
             | Inr response \<Rightarrow>
                 if raise_for_status response
                 then (Inr None, sent @ [Logged CRITICAL (FailedToFetchData (status_code response))])
                 else if status_code response = 206
                 then (case first_response (ArchiveIterator e (raw response)) of
                         Inl x \<Rightarrow> (Inl x, sent)
                       | Inr (Some page) \<Rightarrow> (Inr (Some page), sent)
                       | Inr None \<Rightarrow> (Inr None, sent @ [Logged INFO NoValidWarcRecord]))
                 else (Inr None, sent @ [Logged INFO NoValidWarcRecord])))"

section \<open>Querying the index\<close>

definition index_request :: "env \<Rightarrow> request" where
  "index_request e =
     \<lparr> url = ''https://index.commoncrawl.org/'' @ INDEX_NAME @ ''-index'',
       params = [(''url'', ''*.de''), (''output'', ''json'')],
       headers = [(''user-agent'', AGENT_NAME)],
       verify = CERTIFICATE_PATH e @ ''/index.commoncrawl.org.pem'',
       stream = False \<rparr>"

text \<open>
  The list comprehension \<^verbatim>\<open>[json.loads(record) for record in ...]\<close>: the first line the
  decoder rejects raises, and no list is built.
\<close>

fun loads_all :: "(string \<Rightarrow> exn + 'a) \<Rightarrow> string list \<Rightarrow> exn + 'a list" where
  "loads_all loads [] = Inr []"
| "loads_all loads (record # rest) =
     (case loads record of
        Inl x \<Rightarrow> Inl x
      | Inr v \<Rightarrow> (case loads_all loads rest of
                    Inl x \<Rightarrow> Inl x
                  | Inr vs \<Rightarrow> Inr (v # vs)))"

definition fetch_index :: "env \<Rightarrow> (exn + index_record list) \<times> effect list" where
  "fetch_index e =
     (let req = index_request e
      in case requests_get e req of
           Inl x \<Rightarrow> (Inl x, [HttpGet req])
         | Inr response \<Rightarrow>
             if raise_for_status response
             then (Inr [], [HttpGet req,
                            Logged CRITICAL (FailedToFetchIndex (status_code response))])
             else (case loads_all (json_loads e) (split (strip (resp_text response)) (CHR 0x0A)) of
                     Inl x \<Rightarrow> (Inl x, [HttpGet req])
                   | Inr records \<Rightarrow>
                       (Inr records, [HttpGet req,
                                      Logged INFO (ReceivedRecords (length records))])))"

section \<open>The language classifier\<close>

text \<open>
  The elements below a node in document order, and \<^verbatim>\<open>soup.find(name=..., attrs=...)\<close>:
  the first tag in document order that has the name and every attribute value asked for.
  The attribute dictionary of a tag is an association list read with \<open>map_of\<close>. A tag
  found is always true in the condition of the source's \<^verbatim>\<open>if\<close>, so only \<^verbatim>\<open>None\<close> takes the
  branch after it.
\<close>

fun descendants :: "element \<Rightarrow> element list"
  and descendants_of :: "element list \<Rightarrow> element list" where
  "descendants (Tag name attrs contents) = Tag name attrs contents # descendants_of contents"
| "descendants (NavigableString s) = [NavigableString s]"
| "descendants_of [] = []"
| "descendants_of (el # els) = descendants el @ descendants_of els"

fun matches :: "string \<Rightarrow> (string \<times> string) list \<Rightarrow> element \<Rightarrow> bool" where
  "matches name attrs (Tag tag_name tag_attrs contents) =
     (tag_name = name \<and> list_all (\<lambda>(k, v). map_of tag_attrs k = Some v) attrs)"
| "matches name attrs (NavigableString s) = False"

definition soup_find :: "element list \<Rightarrow> string \<Rightarrow> (string \<times> string) list \<Rightarrow> element option" where
  "soup_find soup name attrs = find (matches name attrs) (descendants_of soup)"

fun attrs_get :: "element \<Rightarrow> string \<Rightarrow> string option" where
  "attrs_get (Tag tag_name tag_attrs contents) key = map_of tag_attrs key"
| "attrs_get (NavigableString s) key = None"

definition is_marked_as_german :: "env \<Rightarrow> bytes \<Rightarrow> bool \<times> effect list" where
  "is_marked_as_german e html =
     (let soup = BeautifulSoup e html
      in case soup_find soup ''meta'' [(''name'', ''language'')] of
           Some language_meta_tag \<Rightarrow>
             (case attrs_get language_meta_tag ''content'' of
                Some other_language \<Rightarrow>
                  if other_language = ''de'' then (True, [])
                  else (False, [Logged DEBUG (NotMarkedAsGerman other_language)])
              | None \<Rightarrow> (False, [Logged WARNING NoContentAttribute]))
         | None \<Rightarrow> (False, [Logged WARNING NoLanguageTag]))"

section \<open>The main loop\<close>

text \<open>
  The configuration of the logger at the start of \<^verbatim>\<open>main\<close> and the \<^verbatim>\<open>urlkey\<close> that
  \<^verbatim>\<open>logger.contextualize\<close> attaches to the entries of one iteration are not part of the
  effects; the subscription \<^verbatim>\<open>record["urlkey"]\<close> is, since it can raise.
\<close>

definition getitem :: "index_record \<Rightarrow> string \<Rightarrow> exn + string" where
  "getitem record key = (case record key of None \<Rightarrow> Inl (KeyError key) | Some v \<Rightarrow> Inr v)"

text \<open>
  The subscriptions and conversions of one loop iteration, in the order the interpreter
  evaluates them: \<^verbatim>\<open>record["urlkey"]\<close>, \<^verbatim>\<open>record["filename"]\<close>,
  \<^verbatim>\<open>int(record["offset"])\<close>, \<^verbatim>\<open>int(record["length"])\<close>. The first exception ends the
  evaluation.
\<close>

definition call_arguments :: "index_record \<Rightarrow> exn + (string \<times> int \<times> int)" where
  "call_arguments record =
     (case getitem record ''urlkey'' of Inl x \<Rightarrow> Inl x | Inr urlkey \<Rightarrow>
     (case getitem record ''filename'' of Inl x \<Rightarrow> Inl x | Inr file_name \<Rightarrow>
     (case getitem record ''offset'' of Inl x \<Rightarrow> Inl x | Inr offset_text \<Rightarrow>
     (case py_int offset_text of Inl x \<Rightarrow> Inl x | Inr offset \<Rightarrow>
     (case getitem record ''length'' of Inl x \<Rightarrow> Inl x | Inr length_text \<Rightarrow>
     (case py_int length_text of Inl x \<Rightarrow> Inl x | Inr length' \<Rightarrow>
        Inr (file_name, offset, length')))))))"

text \<open>
  The body of the loop for one record. The result is the exception that leaves the body, if
  any; nothing in \<^verbatim>\<open>main\<close> catches one.
\<close>

definition loop_body :: "env \<Rightarrow> index_record \<Rightarrow> exn option \<times> effect list" where
  "loop_body e record =
     (case call_arguments record of
        Inl x \<Rightarrow> (Some x, [])
      | Inr (file_name, offset, length') \<Rightarrow>
          (case fetch_page e file_name offset length' of
             (Inl x, fx) \<Rightarrow> (Some x, fx)
           | (Inr None, fx) \<Rightarrow> (None, fx)
           | (Inr (Some page), fx) \<Rightarrow>
               if page = [] then (None, fx)
               else (case is_marked_as_german e page of
                       (False, gx) \<Rightarrow> (None, fx @ gx)
                     | (True, gx) \<Rightarrow> (None, fx @ gx @ [Logged SUCCESS NowWhat]))))"

fun for_records :: "env \<Rightarrow> index_record list \<Rightarrow> exn option \<times> effect list" where
  "for_records e [] = (None, [])"
| "for_records e (record # rest) =
     (case loop_body e record of
        (Some x, fx) \<Rightarrow> (Some x, fx)
      | (None, fx) \<Rightarrow> (case for_records e rest of (r, fxs) \<Rightarrow> (r, fx @ fxs)))"

definition main :: "env \<Rightarrow> exn option \<times> effect list" where
  "main e =
     (case fetch_index e of
        (Inl x, fx) \<Rightarrow> (Some x, fx)
      | (Inr records, fx) \<Rightarrow>
          (case for_records e (take 20 records) of (r, fxs) \<Rightarrow> (r, fx @ fxs)))"

section \<open>A decoder for the JSON lines of the index\<close>

text \<open>
  The index serves one JSON object per line, whose members are strings. This decoder reads
  that fragment: an object of string members without escape sequences. On it, and on the
  empty text (which is no JSON document), it answers as \<^verbatim>\<open>json.loads\<close> does; it serves
  as the decoder of the concrete runs below.
\<close>

datatype token = LBrace | RBrace | Colon | Comma | Str string | Bad

fun lex :: "string option \<Rightarrow> string \<Rightarrow> token list" where
  "lex None [] = []"
| "lex (Some acc) [] = [Bad]"
| "lex None (c # cs) =
     (if c = CHR 0x22 then lex (Some []) cs
      else if c \<in> set [CHR 0x20, CHR 0x09, CHR 0x0A, CHR 0x0D] then lex None cs
      else if c = CHR ''{'' then LBrace # lex None cs
      else if c = CHR ''}'' then RBrace # lex None cs
      else if c = CHR '':'' then Colon # lex None cs
      else if c = CHR '','' then Comma # lex None cs
      else [Bad])"
| "lex (Some acc) (c # cs) =
     (if c = CHR 0x22 then Str (rev acc) # lex None cs
      else if c = CHR 0x5C \<or> of_char c < (32::nat) then [Bad]
      else lex (Some (c # acc)) cs)"

fun members :: "token list \<Rightarrow> (string \<times> string) list option" where
  "members (Str k # Colon # Str v # t # rest) =
     (if t = Comma then map_option ((#) (k, v)) (members rest)
      else if t = RBrace \<and> rest = [] then Some [(k, v)]
      else None)"
| "members ts = None"

definition json_loads_flat :: "string \<Rightarrow> exn + index_record" where
  "json_loads_flat s =
     (case (case lex None s of
              [] \<Rightarrow> None
            | t # ts \<Rightarrow> if t \<noteq> LBrace then None
                        else if ts = [RBrace] then Some []
                        else members ts) of
        None \<Rightarrow> Inl (JSONDecodeError s)
      | Some kvs \<Rightarrow> Inr (fold (\<lambda>(k, v) m. m(k \<mapsto> v)) kvs Map.empty))"

section \<open>Notions the properties are stated with\<close>

text \<open>The HTTP requests among the effects of a run, in the order they were sent.\<close>

fun requests_sent :: "effect list \<Rightarrow> request list" where
  "requests_sent [] = []"
| "requests_sent (Logged l m # fx) = requests_sent fx"
| "requests_sent (HttpGet req # fx) = req # requests_sent fx"

text \<open>An iteration that yields the given records and then goes on as \<open>k\<close>.\<close>

fun yields :: "warc_record list \<Rightarrow> archive_iteration \<Rightarrow> archive_iteration" where
  "yields [] k = k"
| "yields (r # rs) k = Yields r (yields rs k)"

text \<open>A \<^verbatim>\<open>meta\<close> tag whose \<^verbatim>\<open>name\<close> attribute is \<^verbatim>\<open>language\<close>.\<close>

definition language_meta :: "element \<Rightarrow> bool" where
  "language_meta el =
     (case el of
        Tag tag_name tag_attrs contents \<Rightarrow>
          tag_name = ''meta'' \<and> map_of tag_attrs ''name'' = Some ''language''
      | NavigableString s \<Rightarrow> False)"

text \<open>The file name is turned down by one of the two rules of the pre-filter.\<close>

definition rejected :: "env \<Rightarrow> string \<Rightarrow> bool" where
  "rejected e file_name =
     (endswith file_name ''robots.txt'' \<or>
      (\<exists>code \<in> set (NON_GERMAN_BCP47_CODES e). str_contains file_name code))"

text \<open>Lines joined by line feeds, as the index sends them.\<close>

fun join_lines :: "string list \<Rightarrow> string" where
  "join_lines [] = []"
| "join_lines [l] = l"
| "join_lines (l # ls) = l @ CHR 0x0A # join_lines ls"

section \<open>Sample runs\<close>

text \<open>
  A small registry, one archive stream and one page, for running the program on concrete
  inputs. The sample server answers the index query and the page request with the two
  responses it is given.
\<close>

definition sample_languages :: "(string \<times> string) list" where
  "sample_languages =
     [(''German'', ''de''), (''German - Austria'', ''de-AT''),
      (''English - United States'', ''en-US''), (''English - Germany'', ''en-DE''),
      (''French'', ''fr''), (''Swiss German - Switzerland'', ''gsw-CH'')]"

definition sample_page :: bytes where
  \<open>sample_page =
     ''<title>Hallo</title><meta name="language" content="de"><meta name="language" content="en">''\<close>

definition sample_archive :: "bytes \<Rightarrow> archive_iteration" where
  "sample_archive body =
     (if body = ''WARC'' then
        Yields \<lparr>rec_type = ''request'', content = ''GET / HTTP/1.1''\<rparr>
       (Yields \<lparr>rec_type = ''response'', content = sample_page\<rparr>
       (Yields \<lparr>rec_type = ''response'', content = ''later''\<rparr> StopIteration))
      else if body = ''META'' then
        Yields \<lparr>rec_type = ''metadata'', content = ''fetchTimeMs: 7''\<rparr> StopIteration
      else Raises ArchiveLoadFailed)"

definition sample_soup :: "bytes \<Rightarrow> element list" where
  \<open>sample_soup html =
     (if html = sample_page then
        [Tag ''title'' [] [NavigableString ''Hallo''],
         Tag ''meta'' [(''name'', ''language''), (''content'', ''de'')] [],
         Tag ''meta'' [(''name'', ''language''), (''content'', ''en'')] []]
      else if html = ''<meta name="language" content="de">'' then
        [Tag ''meta'' [(''name'', ''language''), (''content'', ''de'')] []]
      else if html = ''<meta name="language" content="en">'' then
        [Tag ''meta'' [(''name'', ''language''), (''content'', ''en'')] []]
      else if html = ''<meta name="language">'' then
        [Tag ''meta'' [(''name'', ''language'')] []]
      else [NavigableString html])\<close>

definition sample_env :: "response \<Rightarrow> response \<Rightarrow> env" where
  "sample_env index_response page_response =
     \<lparr> languages = sample_languages,
       CERTIFICATE_PATH = ''/srv/crawler/.certificates'',
       requests_get = (\<lambda>req. if stream req then Inr page_response else Inr index_response),
       json_loads = json_loads_flat,
       ArchiveIterator = sample_archive,
       BeautifulSoup = sample_soup \<rparr>"

definition no_response :: response where
  "no_response = \<lparr>status_code = 404, resp_text = [], raw = []\<rparr>"

definition partial_content :: response where
  "partial_content = \<lparr>status_code = 206, resp_text = [], raw = ''WARC''\<rparr>"

definition good_line :: string where
  \<open>good_line =
     ''{"urlkey": "de,example)/", "filename": "crawl-data/a.warc.gz", "offset": "100", "length": "50"}''\<close>

definition bad_line :: string where
  \<open>bad_line =
     ''{"urlkey": "de,broken)/", "filename": "crawl-data/b.warc.gz", "offset": "abc", "length": "50"}''\<close>

definition not_modified :: response where
  "not_modified = \<lparr>status_code = 304, resp_text = [], raw = []\<rparr>"

definition server_error :: response where
  "server_error = \<lparr>status_code = 500, resp_text = ''Internal Server Error'', raw = []\<rparr>"

definition index_ok :: "string \<Rightarrow> response" where
  "index_ok body = \<lparr>status_code = 200, resp_text = body, raw = []\<rparr>"

definition good_record :: index_record where
  "good_record = [''urlkey'' \<mapsto> ''de,example)/'', ''filename'' \<mapsto> ''crawl-data/a.warc.gz'',
                  ''offset'' \<mapsto> ''100'', ''length'' \<mapsto> ''50'']"

definition bad_record :: index_record where
  "bad_record = [''urlkey'' \<mapsto> ''de,broken)/'', ''filename'' \<mapsto> ''crawl-data/b.warc.gz'',
                 ''offset'' \<mapsto> ''abc'', ''length'' \<mapsto> ''50'']"

section \<open>Decimal numbers: printing and reading back\<close>

lemma digit_cases: "n < 10 \<Longrightarrow> n \<in> set [0, 1, 2, 3, 4, 5, 6, 7, 8, 9 :: nat]"
  by (simp only: set_simps insert_iff empty_iff) arith

lemma digit_char_props:
  assumes "n < 10"
  shows "digit_val (digit_char n) = Some n" and "digit_char n \<noteq> CHR ''_''"
    and "digit_char n \<noteq> CHR ''-''" and "digit_char n \<noteq> CHR ''+''"
    and "\<not> int_space (digit_char n)"
  using digit_cases [OF assms]
  by (auto simp: digit_char_def digit_val_def int_space_def)

lemma int_digits_str_nat:
  "int_digits acc b (str_nat n @ cs) = int_digits (acc * 10 ^ length (str_nat n) + n) True cs"
proof (induction n arbitrary: acc b cs rule: str_nat.induct)
  case (1 n)
  show ?case
  proof (cases "n < 10")
    case True
    then show ?thesis
      by (simp add: str_nat.simps [of n] digit_char_props mult.commute)
  next
    case False
    then have m: "n mod 10 < 10" by simp
    have s: "str_nat n = str_nat (n div 10) @ [digit_char (n mod 10)]"
      using False by (simp add: str_nat.simps [of n])
    have "int_digits acc b (str_nat n @ cs)
        = int_digits acc b (str_nat (n div 10) @ (digit_char (n mod 10) # cs))"
      by (simp add: s)
    also have "\<dots> = int_digits (acc * 10 ^ length (str_nat (n div 10)) + n div 10) True
                       (digit_char (n mod 10) # cs)"
      using False by (rule "1.IH")
    also have "\<dots> = int_digits (10 * (acc * 10 ^ length (str_nat (n div 10)) + n div 10) + n mod 10)
                        True cs"
      by (simp add: digit_char_props [OF m])
    also have "10 * (acc * 10 ^ length (str_nat (n div 10)) + n div 10) + n mod 10
             = acc * 10 ^ length (str_nat n) + n"
      by (simp add: s algebra_simps)
    finally show ?thesis .
  qed
qed

lemma int_digits_of_str_nat: "int_digits 0 False (str_nat n) = Some n"
  using int_digits_str_nat [of 0 False n "[]"] by simp

lemma str_nat_first: "\<exists>d cs. d < 10 \<and> str_nat n = digit_char d # cs"
proof (induction n rule: str_nat.induct)
  case (1 n)
  show ?case
  proof (cases "n < 10")
    case True
    then show ?thesis by (auto simp: str_nat.simps [of n])
  next
    case False
    with "1.IH" obtain d cs where "d < 10" "str_nat (n div 10) = digit_char d # cs" by blast
    with False show ?thesis by (auto simp: str_nat.simps [of n])
  qed
qed

lemma str_nat_last: "\<exists>d cs. d < 10 \<and> str_nat n = cs @ [digit_char d]"
proof (cases "n < 10")
  case True
  then show ?thesis by (auto simp: str_nat.simps [of n])
next
  case False
  have "n mod 10 < 10" by simp
  moreover have "str_nat n = str_nat (n div 10) @ [digit_char (n mod 10)]"
    using False by (simp add: str_nat.simps [of n])
  ultimately show ?thesis by blast
qed

lemma int_strip_str_nat: "int_strip (str_nat n) = str_nat n"
proof -
  obtain d cs where d: "d < 10" "str_nat n = digit_char d # cs" using str_nat_first by blast
  obtain d' cs' where d': "d' < 10" "str_nat n = cs' @ [digit_char d']" using str_nat_last by blast
  have "dropWhile int_space (str_nat n) = str_nat n"
    using d by (simp add: digit_char_props)
  moreover have "dropWhile int_space (rev (str_nat n)) = rev (str_nat n)"
    using d' by (simp add: digit_char_props)
  ultimately show ?thesis by (simp add: int_strip_def)
qed

lemma int_strip_minus_str_nat: "int_strip (CHR ''-'' # str_nat n) = CHR ''-'' # str_nat n"
proof -
  obtain d' cs' where d': "d' < 10" "str_nat n = cs' @ [digit_char d']" using str_nat_last by blast
  have "dropWhile int_space (rev (CHR ''-'' # str_nat n)) = rev (CHR ''-'' # str_nat n)"
    using d' by (simp add: digit_char_props)
  moreover have "dropWhile int_space (CHR ''-'' # str_nat n) = CHR ''-'' # str_nat n"
    by (simp add: int_space_def)
  ultimately show ?thesis by (simp add: int_strip_def)
qed

lemma py_int_str_int: "py_int (str_int i) = Inr i"
proof (cases "i < 0")
  case True
  then show ?thesis
    by (simp add: py_int_def str_int_def int_strip_minus_str_nat signed_digits_def int_digits_of_str_nat)
next
  case False
  obtain d cs where d: "d < 10" "str_nat (nat i) = digit_char d # cs" using str_nat_first by blast
  have "signed_digits (str_nat (nat i)) = map_option int (int_digits 0 False (str_nat (nat i)))"
    using d digit_char_props [OF d(1)] by (simp add: signed_digits_def)
  with False show ?thesis
    by (simp add: py_int_def str_int_def int_strip_str_nat int_digits_of_str_nat)
qed

lemma py_int_whitespace:
  "py_int [CHR 0x20, CHR ''1'', CHR ''2'', CHR 0x0A] = Inr 12"
  "py_int [CHR 0x1C, CHR ''1'', CHR ''2''] = Inl (ValueError [CHR 0x1C, CHR ''1'', CHR ''2''])"
  by (simp_all add: py_int_def int_strip_def int_space_def signed_digits_def digit_val_def)

section \<open>Properties of the page fetcher\<close>

lemma endswith_iff: "endswith s suf \<longleftrightarrow> (\<exists>front. s = front @ suf)"
  by (auto simp: endswith_def suffix_def)

lemma str_contains_iff: "str_contains s sub \<longleftrightarrow> (\<exists>front back. s = front @ sub @ back)"
  by (simp add: str_contains_def sublist_def)

lemma fetch_page_accepted:
  assumes "\<not> rejected e file_name"
  shows "\<exists>outcome fx. fetch_page e file_name offset length' =
           (outcome, Logged INFO (DownloadFrom (''https://data.commoncrawl.org/'' @ file_name))
                     # HttpGet (page_request e file_name offset length') # fx)
         \<and> requests_sent fx = []"
proof -
  from assms have a: "\<not> endswith file_name ''robots.txt''"
    and b: "find (\<lambda>c. str_contains file_name c) (NON_GERMAN_BCP47_CODES e) = None"
    by (auto simp: rejected_def find_None_iff)
  show ?thesis
    using a b
    by (auto simp: fetch_page_def Let_def page_request_def split: sum.splits option.splits)
qed

text \<open>
  Claim C1. For a file name that the pre-filter lets through, \<^verbatim>\<open>fetch_page\<close> sends exactly
  one HTTP request, and its \<^verbatim>\<open>Range\<close> header is \<^verbatim>\<open>bytes=\<close>, the offset in decimal, a
  hyphen and \<^verbatim>\<open>offset + length - 1\<close> in decimal (the two fields read back as these two
  numbers); for offset 100 and length 50 it is \<^verbatim>\<open>bytes=100-149\<close>.
\<close>

theorem range_header_inclusive:
  assumes "\<not> rejected e file_name"
  shows "\<exists>req. requests_sent (snd (fetch_page e file_name offset length')) = [req]
           \<and> map_of (headers req) ''Range''
               = Some (''bytes='' @ str_int offset @ ''-'' @ str_int (offset + length' - 1))
           \<and> py_int (str_int offset) = Inr offset
           \<and> py_int (str_int (offset + length' - 1)) = Inr (offset + length' - 1)
           \<and> (offset = 100 \<and> length' = 50 \<longrightarrow>
                map_of (headers req) ''Range'' = Some ''bytes=100-149'')"
proof -
  obtain outcome fx where f: "fetch_page e file_name offset length' =
      (outcome, Logged INFO (DownloadFrom (''https://data.commoncrawl.org/'' @ file_name))
                # HttpGet (page_request e file_name offset length') # fx)"
    and n: "requests_sent fx = []"
    using fetch_page_accepted [OF assms] by blast
  have r: "map_of (headers (page_request e file_name offset length')) ''Range''
             = Some (range_header offset length')"
    by (simp add: page_request_def)
  have c: "range_header 100 50 = ''bytes=100-149''"
    by (simp add: range_header_def str_int_def str_nat.simps digit_char_def)
  show ?thesis
    using f n r c by (auto simp: py_int_str_int range_header_def)
qed

theorem range_header_inclusive_witness:
  "\<not> rejected (sample_env no_response partial_content) ''crawl-data/a.warc.gz''
   \<and> map (\<lambda>req. map_of (headers req) ''Range'')
         (requests_sent (snd (fetch_page (sample_env no_response partial_content)
                                ''crawl-data/a.warc.gz'' 100 50)))
       = [Some ''bytes=100-149'']"
proof -
  have a: "\<not> rejected (sample_env no_response partial_content) ''crawl-data/a.warc.gz''"
    by (simp add: rejected_def endswith_def suffix_to_prefix str_contains_def sublist_code(3)
                  NON_GERMAN_BCP47_CODES_def sample_env_def sample_languages_def)
  show ?thesis
    using a range_header_inclusive [OF a, of 100 50] by auto
qed

lemma fetch_page_denied:
  assumes "\<not> endswith file_name ''robots.txt''"
    and "\<exists>code \<in> set (NON_GERMAN_BCP47_CODES e). str_contains file_name code"
  shows "\<exists>code \<in> set (NON_GERMAN_BCP47_CODES e). str_contains file_name code \<and>
           fetch_page e file_name offset length' = (Inr None, [Logged DEBUG (SkippingNonGerman code)])"
proof -
  from assms(2) have "find (\<lambda>c. str_contains file_name c) (NON_GERMAN_BCP47_CODES e) \<noteq> None"
    by (auto simp: find_None_iff)
  then obtain d where d: "find (\<lambda>c. str_contains file_name c) (NON_GERMAN_BCP47_CODES e) = Some d"
    by auto
  then have "d \<in> set (NON_GERMAN_BCP47_CODES e)" "str_contains file_name d"
    by (auto simp: find_Some_iff)
  moreover have "fetch_page e file_name offset length' = (Inr None, [Logged DEBUG (SkippingNonGerman d)])"
    using assms(1) d by (simp add: fetch_page_def)
  ultimately show ?thesis by blast
qed

lemma sample_env_sel:
  "languages (sample_env ir pr) = sample_languages"
  "CERTIFICATE_PATH (sample_env ir pr) = ''/srv/crawler/.certificates''"
  "requests_get (sample_env ir pr) req = (if stream req then Inr pr else Inr ir)"
  "json_loads (sample_env ir pr) = json_loads_flat"
  "ArchiveIterator (sample_env ir pr) = sample_archive"
  "BeautifulSoup (sample_env ir pr) = sample_soup"
  by (simp_all add: sample_env_def)

lemma sample_fetch:
  "fetch_page (sample_env ir partial_content) ''crawl-data/a.warc.gz'' 100 50 =
     (Inr (Some sample_page),
      [Logged INFO (DownloadFrom ''https://data.commoncrawl.org/crawl-data/a.warc.gz''),
       HttpGet (page_request (sample_env ir partial_content) ''crawl-data/a.warc.gz'' 100 50)])"
proof -
  have a: "\<not> endswith ''crawl-data/a.warc.gz'' ''robots.txt''"
    by (simp add: endswith_def suffix_to_prefix)
  have b: "find (\<lambda>c. str_contains ''crawl-data/a.warc.gz'' c)
             (NON_GERMAN_BCP47_CODES (sample_env ir partial_content)) = None"
    by (simp add: NON_GERMAN_BCP47_CODES_def sample_env_sel sample_languages_def
                str_contains_def sublist_code(3))
  have c: "stream (page_request (sample_env ir partial_content) ''crawl-data/a.warc.gz'' 100 50)"
    and d: "url (page_request (sample_env ir partial_content) ''crawl-data/a.warc.gz'' 100 50)
             = ''https://data.commoncrawl.org/crawl-data/a.warc.gz''"
    by (simp_all add: page_request_def)
  have f: "first_response (sample_archive (raw partial_content)) = Inr (Some sample_page)"
    by (simp add: sample_archive_def partial_content_def)
  have g: "\<not> raise_for_status partial_content" "status_code partial_content = 206"
    by (simp_all add: raise_for_status_def partial_content_def)
  show ?thesis
    unfolding fetch_page_def Let_def
    by (simp add: a b c d f g sample_env_sel)
qed

lemma sample_codes: "NON_GERMAN_BCP47_CODES (sample_env ir pr) = [''en-US'']"
  by (simp add: NON_GERMAN_BCP47_CODES_def sample_env_def sample_languages_def
                str_contains_def sublist_code(3))

text \<open>
  Claim C3. A file name that ends with \<^verbatim>\<open>robots.txt\<close> is turned down whatever the deny list
  holds; otherwise a file name that contains a code of the deny list is turned down;
  otherwise the file name is accepted and the page request is sent. The first rule that
  applies decides.
\<close>

theorem prefilter_first_match:
  "(endswith file_name ''robots.txt'' \<longrightarrow>
      fetch_page e file_name offset length' = (Inr None, [Logged DEBUG SkippingRobots]))
   \<and> (\<not> endswith file_name ''robots.txt''
        \<and> (\<exists>code \<in> set (NON_GERMAN_BCP47_CODES e). str_contains file_name code) \<longrightarrow>
      (\<exists>code \<in> set (NON_GERMAN_BCP47_CODES e). str_contains file_name code \<and>
         fetch_page e file_name offset length'
           = (Inr None, [Logged DEBUG (SkippingNonGerman code)])))
   \<and> (\<not> endswith file_name ''robots.txt''
        \<and> (\<forall>code \<in> set (NON_GERMAN_BCP47_CODES e). \<not> str_contains file_name code) \<longrightarrow>
      requests_sent (snd (fetch_page e file_name offset length'))
        = [page_request e file_name offset length'])"
proof (intro conjI impI)
  assume "endswith file_name ''robots.txt''"
  then show "fetch_page e file_name offset length' = (Inr None, [Logged DEBUG SkippingRobots])"
    by (simp add: fetch_page_def)
next
  assume "\<not> endswith file_name ''robots.txt''
        \<and> (\<exists>code \<in> set (NON_GERMAN_BCP47_CODES e). str_contains file_name code)"
  then show "\<exists>code \<in> set (NON_GERMAN_BCP47_CODES e). str_contains file_name code \<and>
         fetch_page e file_name offset length' = (Inr None, [Logged DEBUG (SkippingNonGerman code)])"
    using fetch_page_denied by blast
next
  assume "\<not> endswith file_name ''robots.txt''
        \<and> (\<forall>code \<in> set (NON_GERMAN_BCP47_CODES e). \<not> str_contains file_name code)"
  then have "\<not> rejected e file_name" by (simp add: rejected_def)
  from fetch_page_accepted [OF this, of offset length']
  show "requests_sent (snd (fetch_page e file_name offset length'))
        = [page_request e file_name offset length']"
    by auto
qed

theorem prefilter_first_match_witness:
  "endswith ''crawl-data/en-US/robots.txt'' ''robots.txt''
   \<and> fetch_page (sample_env no_response partial_content) ''crawl-data/en-US/robots.txt'' 100 50
       = (Inr None, [Logged DEBUG SkippingRobots])
   \<and> \<not> endswith ''crawl-data/en-US/a.warc.gz'' ''robots.txt''
   \<and> str_contains ''crawl-data/en-US/a.warc.gz'' ''en-US''
   \<and> fetch_page (sample_env no_response partial_content) ''crawl-data/en-US/a.warc.gz'' 100 50
       = (Inr None, [Logged DEBUG (SkippingNonGerman ''en-US'')])
   \<and> \<not> endswith ''crawl-data/a.warc.gz'' ''robots.txt''
   \<and> \<not> str_contains ''crawl-data/a.warc.gz'' ''en-US''
   \<and> requests_sent (snd (fetch_page (sample_env no_response partial_content)
                            ''crawl-data/a.warc.gz'' 100 50))
       = [page_request (sample_env no_response partial_content) ''crawl-data/a.warc.gz'' 100 50]"
proof -
  let ?e = "sample_env no_response partial_content"
  have a: "endswith ''crawl-data/en-US/robots.txt'' ''robots.txt''"
    by (simp add: endswith_def suffix_to_prefix)
  have b: "\<not> endswith ''crawl-data/en-US/a.warc.gz'' ''robots.txt''"
    by (simp add: endswith_def suffix_to_prefix)
  have c: "str_contains ''crawl-data/en-US/a.warc.gz'' ''en-US''"
    by (simp add: str_contains_def sublist_code(3))
  have d: "\<not> endswith ''crawl-data/a.warc.gz'' ''robots.txt''"
    by (simp add: endswith_def suffix_to_prefix)
  have f: "\<not> str_contains ''crawl-data/a.warc.gz'' ''en-US''"
    by (simp add: str_contains_def sublist_code(3))
  show ?thesis
    using a b c d f
      prefilter_first_match [of "''crawl-data/en-US/robots.txt''" ?e 100 50]
      prefilter_first_match [of "''crawl-data/en-US/a.warc.gz''" ?e 100 50]
      prefilter_first_match [of "''crawl-data/a.warc.gz''" ?e 100 50]
    by (simp add: sample_codes)
qed

text \<open>
  Claim C9. For a file name that the pre-filter turns down (by either rule),
  \<^verbatim>\<open>fetch_page\<close> returns \<^verbatim>\<open>None\<close> and sends no HTTP request; a request is sent only for a
  file name that passes both rules.
\<close>

theorem rejected_sends_no_request:
  "(rejected e file_name \<longrightarrow>
      fst (fetch_page e file_name offset length') = Inr None
      \<and> requests_sent (snd (fetch_page e file_name offset length')) = [])
   \<and> (requests_sent (snd (fetch_page e file_name offset length')) \<noteq> [] \<longrightarrow>
      \<not> endswith file_name ''robots.txt''
      \<and> (\<forall>code \<in> set (NON_GERMAN_BCP47_CODES e). \<not> str_contains file_name code))"
proof -
  have r: "fst (fetch_page e file_name offset length') = Inr None
      \<and> requests_sent (snd (fetch_page e file_name offset length')) = []"
    if "rejected e file_name"
  proof (cases "endswith file_name ''robots.txt''")
    case True
    then show ?thesis by (simp add: fetch_page_def)
  next
    case False
    with that have "\<exists>code \<in> set (NON_GERMAN_BCP47_CODES e). str_contains file_name code"
      by (simp add: rejected_def)
    from fetch_page_denied [OF False this, of offset length'] show ?thesis by auto
  qed
  then show ?thesis by (auto simp: rejected_def)
qed

theorem rejected_sends_no_request_witness:
  "rejected (sample_env no_response partial_content) ''crawl-data/en-US/a.warc.gz''
   \<and> fst (fetch_page (sample_env no_response partial_content) ''crawl-data/en-US/a.warc.gz'' 100 50)
       = Inr None
   \<and> requests_sent (snd (fetch_page (sample_env no_response partial_content)
                            ''crawl-data/en-US/a.warc.gz'' 100 50)) = []
   \<and> requests_sent (snd (fetch_page (sample_env no_response partial_content)
                            ''crawl-data/a.warc.gz'' 100 50)) \<noteq> []
   \<and> \<not> endswith ''crawl-data/a.warc.gz'' ''robots.txt''
   \<and> \<not> str_contains ''crawl-data/a.warc.gz'' ''en-US''"
proof -
  let ?e = "sample_env no_response partial_content"
  have "str_contains ''crawl-data/en-US/a.warc.gz'' ''en-US''"
    by (simp add: str_contains_def sublist_code(3))
  then have a: "rejected ?e ''crawl-data/en-US/a.warc.gz''"
    by (simp add: rejected_def sample_codes)
  have c: "requests_sent (snd (fetch_page ?e ''crawl-data/a.warc.gz'' 100 50)) \<noteq> []"
    by (simp add: sample_fetch)
  from a rejected_sends_no_request [of ?e "''crawl-data/en-US/a.warc.gz''" 100 50]
  have p: "fst (fetch_page ?e ''crawl-data/en-US/a.warc.gz'' 100 50) = Inr None"
    and q: "requests_sent (snd (fetch_page ?e ''crawl-data/en-US/a.warc.gz'' 100 50)) = []"
    by blast+
  from c rejected_sends_no_request [of ?e "''crawl-data/a.warc.gz''" 100 50]
  have r: "\<not> endswith ''crawl-data/a.warc.gz'' ''robots.txt''"
    and "\<forall>code \<in> set (NON_GERMAN_BCP47_CODES ?e). \<not> str_contains ''crawl-data/a.warc.gz'' code"
    by blast+
  then have t: "\<not> str_contains ''crawl-data/a.warc.gz'' ''en-US''"
    by (simp add: sample_codes)
  show ?thesis
    using a c p q r t by blast
qed

section \<open>Properties of the record extractor\<close>


lemma first_response_yields:
  "\<forall>b \<in> set before. rec_type b \<noteq> ''response'' \<Longrightarrow>
   first_response (yields before k) = first_response k"
  by (induction before) simp_all

lemma fetch_page_response:
  assumes "\<not> rejected e file_name"
    and "requests_get e (page_request e file_name offset length') = Inr response"
    and "\<not> raise_for_status response"
  shows "fetch_page e file_name offset length' =
    (let sent = [Logged INFO (DownloadFrom (''https://data.commoncrawl.org/'' @ file_name)),
                 HttpGet (page_request e file_name offset length')]
     in if status_code response = 206
        then (case first_response (ArchiveIterator e (raw response)) of
                Inl x \<Rightarrow> (Inl x, sent)
              | Inr (Some page) \<Rightarrow> (Inr (Some page), sent)
              | Inr None \<Rightarrow> (Inr None, sent @ [Logged INFO NoValidWarcRecord]))
        else (Inr None, sent @ [Logged INFO NoValidWarcRecord]))"
proof -
  from assms(1) have a: "\<not> endswith file_name ''robots.txt''"
    and b: "find (\<lambda>c. str_contains file_name c) (NON_GERMAN_BCP47_CODES e) = None"
    by (auto simp: rejected_def find_None_iff)
  have u: "url (page_request e file_name offset length') = ''https://data.commoncrawl.org/'' @ file_name"
    by (simp add: page_request_def)
  show ?thesis
    unfolding fetch_page_def Let_def
    by (simp add: a b u assms(2,3) split: sum.split option.split)
qed

text \<open>
  Claim C2. For a response to the range request that \<^verbatim>\<open>raise_for_status\<close> accepts: if the
  status is 206 and the archive iterator yields, after records of other types, a record of
  type \<^verbatim>\<open>response\<close>, then \<^verbatim>\<open>fetch_page\<close> returns the content of that record, whatever
  the stream holds after it; if the status is not 206, or the stream ends without a record
  of type \<^verbatim>\<open>response\<close>, then \<^verbatim>\<open>fetch_page\<close> returns \<^verbatim>\<open>None\<close> and its last effect is the
  message "No valid WARC record found" at severity info.
\<close>

theorem first_response_record_returned:
  assumes "\<not> rejected e file_name"
    and "requests_get e (page_request e file_name offset length') = Inr response"
    and "\<not> raise_for_status response"
  shows "(status_code response = 206
          \<and> ArchiveIterator e (raw response) = yields before (Yields r after)
          \<and> (\<forall>b \<in> set before. rec_type b \<noteq> ''response'') \<and> rec_type r = ''response'' \<longrightarrow>
            fst (fetch_page e file_name offset length') = Inr (Some (content r)))
       \<and> (status_code response \<noteq> 206
          \<or> (\<exists>rs. ArchiveIterator e (raw response) = yields rs StopIteration
                  \<and> (\<forall>b \<in> set rs. rec_type b \<noteq> ''response'')) \<longrightarrow>
            fetch_page e file_name offset length' =
              (Inr None,
               [Logged INFO (DownloadFrom (''https://data.commoncrawl.org/'' @ file_name)),
                HttpGet (page_request e file_name offset length'),
                Logged INFO NoValidWarcRecord]))"
proof (intro conjI impI)
  assume h: "status_code response = 206
          \<and> ArchiveIterator e (raw response) = yields before (Yields r after)
          \<and> (\<forall>b \<in> set before. rec_type b \<noteq> ''response'') \<and> rec_type r = ''response''"
  then have "first_response (ArchiveIterator e (raw response)) = Inr (Some (content r))"
    by (simp add: first_response_yields)
  with h show "fst (fetch_page e file_name offset length') = Inr (Some (content r))"
    by (simp add: fetch_page_response [OF assms])
next
  assume h: "status_code response \<noteq> 206
          \<or> (\<exists>rs. ArchiveIterator e (raw response) = yields rs StopIteration
                  \<and> (\<forall>b \<in> set rs. rec_type b \<noteq> ''response''))"
  show "fetch_page e file_name offset length' =
              (Inr None,
               [Logged INFO (DownloadFrom (''https://data.commoncrawl.org/'' @ file_name)),
                HttpGet (page_request e file_name offset length'),
                Logged INFO NoValidWarcRecord])"
  proof (cases "status_code response = 206")
    case False
    then show ?thesis by (simp add: fetch_page_response [OF assms])
  next
    case True
    with h obtain rs where "ArchiveIterator e (raw response) = yields rs StopIteration"
      "\<forall>b \<in> set rs. rec_type b \<noteq> ''response''" by blast
    then have "first_response (ArchiveIterator e (raw response)) = Inr None"
      by (simp add: first_response_yields)
    with True show ?thesis by (simp add: fetch_page_response [OF assms])
  qed
qed

theorem first_response_record_returned_witness:
  "fst (fetch_page (sample_env no_response partial_content) ''crawl-data/a.warc.gz'' 100 50)
     = Inr (Some sample_page)
   \<and> fetch_page (sample_env no_response (partial_content\<lparr>status_code := 200\<rparr>))
        ''crawl-data/a.warc.gz'' 100 50
     = (Inr None,
        [Logged INFO (DownloadFrom ''https://data.commoncrawl.org/crawl-data/a.warc.gz''),
         HttpGet (page_request (sample_env no_response (partial_content\<lparr>status_code := 200\<rparr>))
                    ''crawl-data/a.warc.gz'' 100 50),
         Logged INFO NoValidWarcRecord])
   \<and> fetch_page (sample_env no_response (partial_content\<lparr>raw := ''META''\<rparr>))
        ''crawl-data/a.warc.gz'' 100 50
     = (Inr None,
        [Logged INFO (DownloadFrom ''https://data.commoncrawl.org/crawl-data/a.warc.gz''),
         HttpGet (page_request (sample_env no_response (partial_content\<lparr>raw := ''META''\<rparr>))
                    ''crawl-data/a.warc.gz'' 100 50),
         Logged INFO NoValidWarcRecord])"
proof -
  let ?f = "''crawl-data/a.warc.gz''"
  have acc: "\<not> rejected (sample_env ir pr) ?f" for ir pr
    by (simp add: rejected_def sample_codes endswith_def suffix_to_prefix str_contains_def
                  sublist_code(3))
  have get: "requests_get (sample_env ir pr) (page_request (sample_env ir pr) ?f 100 50) = Inr pr"
    for ir pr
    by (simp add: sample_env_sel page_request_def)
  have ok: "\<not> raise_for_status partial_content"
    "\<not> raise_for_status (partial_content\<lparr>status_code := 200\<rparr>)"
    "\<not> raise_for_status (partial_content\<lparr>raw := ''META''\<rparr>)"
    by (simp_all add: raise_for_status_def partial_content_def)
  have st: "status_code partial_content = 206"
    "status_code (partial_content\<lparr>status_code := 200\<rparr>) \<noteq> 206"
    "status_code (partial_content\<lparr>raw := ''META''\<rparr>) = 206"
    by (simp_all add: partial_content_def)
  have s1: "ArchiveIterator (sample_env no_response partial_content) (raw partial_content)
      = yields [\<lparr>rec_type = ''request'', content = ''GET / HTTP/1.1''\<rparr>]
          (Yields \<lparr>rec_type = ''response'', content = sample_page\<rparr>
             (Yields \<lparr>rec_type = ''response'', content = ''later''\<rparr> StopIteration))"
    by (simp add: sample_env_sel sample_archive_def partial_content_def)
  have s3: "ArchiveIterator (sample_env no_response (partial_content\<lparr>raw := ''META''\<rparr>))
              (raw (partial_content\<lparr>raw := ''META''\<rparr>))
      = yields [\<lparr>rec_type = ''metadata'', content = ''fetchTimeMs: 7''\<rparr>] StopIteration"
    by (simp add: sample_env_sel sample_archive_def)
  have t1: "\<forall>b \<in> set [\<lparr>rec_type = ''request'', content = ''GET / HTTP/1.1''\<rparr>].
              rec_type b \<noteq> ''response''"
    "rec_type \<lparr>rec_type = ''response'', content = sample_page\<rparr> = ''response''"
    "\<forall>b \<in> set [\<lparr>rec_type = ''metadata'', content = ''fetchTimeMs: 7''\<rparr>].
              rec_type b \<noteq> ''response''"
    by simp_all
  note a = first_response_record_returned [OF acc get ok(1), THEN conjunct1, rule_format,
              OF conjI [OF st(1) conjI [OF s1 conjI [OF t1(1) t1(2)]]]]
  note b = first_response_record_returned [OF acc get ok(2), THEN conjunct2, rule_format,
              OF disjI1 [OF st(2)]]
  have ex: "\<exists>rs. ArchiveIterator (sample_env no_response (partial_content\<lparr>raw := ''META''\<rparr>))
                   (raw (partial_content\<lparr>raw := ''META''\<rparr>)) = yields rs StopIteration
                \<and> (\<forall>b \<in> set rs. rec_type b \<noteq> ''response'')"
    using s3 t1(3) by blast
  note c = first_response_record_returned [OF acc get ok(3), THEN conjunct2, rule_format,
              OF disjI2 [OF ex]]
  from a have a': "fst (fetch_page (sample_env no_response partial_content) ?f 100 50)
     = Inr (Some sample_page)" by simp
  from a' b c show ?thesis by simp
qed

section \<open>Properties of the deny list\<close>

text \<open>
  Claim C4, as stated, fails: the registry entry \<^verbatim>\<open>English - Germany\<close> with the code
  \<^verbatim>\<open>en-DE\<close> names the English language and its code has five characters, yet the code
  is not in the deny list, because the name contains the text \<^verbatim>\<open>German\<close> (in
  \<^verbatim>\<open>Germany\<close>).
\<close>

theorem english_germany_not_denied:
  "(''English - Germany'', ''en-DE'') \<in> set (languages (sample_env no_response partial_content))
   \<and> 5 \<le> length ''en-DE''
   \<and> str_contains ''English - Germany'' ''German''
   \<and> ''en-DE'' \<notin> set (NON_GERMAN_BCP47_CODES (sample_env no_response partial_content))"
  by (simp add: sample_codes sample_env_sel sample_languages_def str_contains_def sublist_code(3))

text \<open>
  Claim C4, amended. The test on a registry name is whether it contains the text
  \<^verbatim>\<open>German\<close>. The deny list holds exactly the codes that the registry lists with at least
  five characters under a name that does not contain \<^verbatim>\<open>German\<close>, each once: a code of
  fewer than five characters is left out whatever its name, and so is a code that the
  registry lists under names containing \<^verbatim>\<open>German\<close> only.
\<close>

theorem deny_list_members:
  "(code \<in> set (NON_GERMAN_BCP47_CODES e) \<longleftrightarrow>
      (\<exists>name. (name, code) \<in> set (languages e) \<and> \<not> str_contains name ''German''
              \<and> 5 \<le> length code))
   \<and> (length code < 5 \<longrightarrow> code \<notin> set (NON_GERMAN_BCP47_CODES e))
   \<and> ((\<forall>name. (name, code) \<in> set (languages e) \<longrightarrow> str_contains name ''German'') \<longrightarrow>
        code \<notin> set (NON_GERMAN_BCP47_CODES e))
   \<and> distinct (NON_GERMAN_BCP47_CODES e)"
proof -
  have m: "code \<in> set (NON_GERMAN_BCP47_CODES e) \<longleftrightarrow>
      (\<exists>name. (name, code) \<in> set (languages e) \<and> \<not> str_contains name ''German''
              \<and> 5 \<le> length code)"
    by (force simp: NON_GERMAN_BCP47_CODES_def)
  have d: "distinct (NON_GERMAN_BCP47_CODES e)"
    by (simp add: NON_GERMAN_BCP47_CODES_def)
  from m d show ?thesis by auto
qed

theorem deny_list_members_witness:
  "''en-US'' \<in> set (NON_GERMAN_BCP47_CODES (sample_env no_response partial_content))
   \<and> (''French'', ''fr'') \<in> set (languages (sample_env no_response partial_content))
   \<and> \<not> str_contains ''French'' ''German''
   \<and> ''fr'' \<notin> set (NON_GERMAN_BCP47_CODES (sample_env no_response partial_content))
   \<and> (''German - Austria'', ''de-AT'') \<in> set (languages (sample_env no_response partial_content))
   \<and> ''de-AT'' \<notin> set (NON_GERMAN_BCP47_CODES (sample_env no_response partial_content))"
proof -
  let ?e = "sample_env no_response partial_content"
  have a: "(''English - United States'', ''en-US'') \<in> set (languages ?e)
           \<and> \<not> str_contains ''English - United States'' ''German'' \<and> 5 \<le> length ''en-US''"
    by (simp add: sample_env_sel sample_languages_def str_contains_def sublist_code(3))
  have b: "(''French'', ''fr'') \<in> set (languages ?e)" "\<not> str_contains ''French'' ''German''"
    "length ''fr'' < 5"
    by (simp_all add: sample_env_sel sample_languages_def str_contains_def sublist_code(3))
  have c: "(''German - Austria'', ''de-AT'') \<in> set (languages ?e)"
    by (simp add: sample_env_sel sample_languages_def)
  have g: "\<forall>name. (name, ''de-AT'') \<in> set (languages ?e) \<longrightarrow> str_contains name ''German''"
    by (simp add: sample_env_sel sample_languages_def str_contains_def sublist_code(3))
  from a deny_list_members [of "''en-US''" ?e]
  have p: "''en-US'' \<in> set (NON_GERMAN_BCP47_CODES ?e)" by blast
  from b(3) deny_list_members [of "''fr''" ?e]
  have q: "''fr'' \<notin> set (NON_GERMAN_BCP47_CODES ?e)" by blast
  from g deny_list_members [of "''de-AT''" ?e]
  have r: "''de-AT'' \<notin> set (NON_GERMAN_BCP47_CODES ?e)" by blast
  from p q r b c show ?thesis by blast
qed

section \<open>Properties of the language classifier\<close>

lemma matches_language_meta: "matches ''meta'' [(''name'', ''language'')] el = language_meta el"
  by (cases el) (simp_all add: language_meta_def)

lemma find_first:
  "\<forall>x \<in> set before. \<not> P x \<Longrightarrow> P t \<Longrightarrow> find P (before @ t # after) = Some t"
  by (induction before) simp_all

lemma soup_find_first:
  assumes "descendants_of soup = before @ tag # after"
    and "\<forall>el \<in> set before. \<not> language_meta el" and "language_meta tag"
  shows "soup_find soup ''meta'' [(''name'', ''language'')] = Some tag"
  using assms by (simp add: soup_find_def find_first matches_language_meta)

lemma soup_find_none:
  assumes "\<forall>el \<in> set (descendants_of soup). \<not> language_meta el"
  shows "soup_find soup ''meta'' [(''name'', ''language'')] = None"
  using assms by (simp add: soup_find_def find_None_iff matches_language_meta)

lemma classify_found:
  assumes "soup_find (BeautifulSoup e html) ''meta'' [(''name'', ''language'')] = Some tag"
  shows "is_marked_as_german e html =
     (case attrs_get tag ''content'' of
        None \<Rightarrow> (False, [Logged WARNING NoContentAttribute])
      | Some v \<Rightarrow> if v = ''de'' then (True, []) else (False, [Logged DEBUG (NotMarkedAsGerman v)]))"
  using assms by (auto simp: is_marked_as_german_def Let_def split: option.split)

text \<open>
  Claim C5. The classifier follows four cases on the first \<^verbatim>\<open>meta\<close> element of the parsed
  document whose \<^verbatim>\<open>name\<close> attribute is \<^verbatim>\<open>language\<close>: there is no such element, and the
  result is no match with the warning "No language-tag found!"; the element has no
  \<^verbatim>\<open>content\<close> attribute, and the result is no match with the warning about the missing
  content; the content is \<^verbatim>\<open>de\<close>, and the result is a match, with nothing logged; the
  content is another value, and the result is no match with that value logged at debug
  severity.
\<close>

theorem classifier_four_cases:
  "((\<forall>el \<in> set (descendants_of (BeautifulSoup e html)). \<not> language_meta el) \<longrightarrow>
      is_marked_as_german e html = (False, [Logged WARNING NoLanguageTag]))
   \<and> (descendants_of (BeautifulSoup e html) = before @ tag # after
        \<and> (\<forall>el \<in> set before. \<not> language_meta el) \<and> language_meta tag \<longrightarrow>
      (attrs_get tag ''content'' = None \<longrightarrow>
         is_marked_as_german e html = (False, [Logged WARNING NoContentAttribute]))
      \<and> (attrs_get tag ''content'' = Some ''de'' \<longrightarrow> is_marked_as_german e html = (True, []))
      \<and> (\<forall>other. attrs_get tag ''content'' = Some other \<and> other \<noteq> ''de'' \<longrightarrow>
           is_marked_as_german e html = (False, [Logged DEBUG (NotMarkedAsGerman other)])))"
proof (intro conjI impI)
  assume "\<forall>el \<in> set (descendants_of (BeautifulSoup e html)). \<not> language_meta el"
  then have "soup_find (BeautifulSoup e html) ''meta'' [(''name'', ''language'')] = None"
    by (rule soup_find_none)
  then show "is_marked_as_german e html = (False, [Logged WARNING NoLanguageTag])"
    by (simp add: is_marked_as_german_def)
next
  assume h: "descendants_of (BeautifulSoup e html) = before @ tag # after
        \<and> (\<forall>el \<in> set before. \<not> language_meta el) \<and> language_meta tag"
  then have f: "soup_find (BeautifulSoup e html) ''meta'' [(''name'', ''language'')] = Some tag"
    by (simp add: soup_find_first)
  {
    assume "attrs_get tag ''content'' = None"
    then show "is_marked_as_german e html = (False, [Logged WARNING NoContentAttribute])"
      by (simp add: classify_found [OF f])
  next
    assume "attrs_get tag ''content'' = Some ''de''"
    then show "is_marked_as_german e html = (True, [])"
      by (simp add: classify_found [OF f])
  next
    show "\<forall>other. attrs_get tag ''content'' = Some other \<and> other \<noteq> ''de'' \<longrightarrow>
           is_marked_as_german e html = (False, [Logged DEBUG (NotMarkedAsGerman other)])"
      by (simp add: classify_found [OF f])
  }
qed

lemma sample_descendants:
  \<open>descendants_of (BeautifulSoup (sample_env ir pr) sample_page) =
     [Tag ''title'' [] [NavigableString ''Hallo''], NavigableString ''Hallo'']
     @ Tag ''meta'' [(''name'', ''language''), (''content'', ''de'')] []
     # [Tag ''meta'' [(''name'', ''language''), (''content'', ''en'')] []]\<close>
  \<open>descendants_of (BeautifulSoup (sample_env ir pr) ''<meta name="language" content="de">'') =
     [] @ Tag ''meta'' [(''name'', ''language''), (''content'', ''de'')] [] # []\<close>
  \<open>descendants_of (BeautifulSoup (sample_env ir pr) ''<meta name="language" content="en">'') =
     [] @ Tag ''meta'' [(''name'', ''language''), (''content'', ''en'')] [] # []\<close>
  \<open>descendants_of (BeautifulSoup (sample_env ir pr) ''<meta name="language">'') =
     [] @ Tag ''meta'' [(''name'', ''language'')] [] # []\<close>
  \<open>descendants_of (BeautifulSoup (sample_env ir pr) ''Hallo'') = [NavigableString ''Hallo'']\<close>
  by (simp_all add: sample_env_sel sample_soup_def sample_page_def)

lemma sample_metas:
  "language_meta (Tag ''meta'' [(''name'', ''language''), (''content'', ''de'')] [])"
  "language_meta (Tag ''meta'' [(''name'', ''language''), (''content'', ''en'')] [])"
  "language_meta (Tag ''meta'' [(''name'', ''language'')] [])"
  "\<not> language_meta (Tag ''title'' [] [NavigableString ''Hallo''])"
  "\<not> language_meta (NavigableString ''Hallo'')"
  by (simp_all add: language_meta_def)

theorem classifier_four_cases_witness:
  \<open>is_marked_as_german (sample_env no_response partial_content) ''Hallo''
     = (False, [Logged WARNING NoLanguageTag])
   \<and> is_marked_as_german (sample_env no_response partial_content) ''<meta name="language">''
     = (False, [Logged WARNING NoContentAttribute])
   \<and> is_marked_as_german (sample_env no_response partial_content) sample_page = (True, [])
   \<and> is_marked_as_german (sample_env no_response partial_content)
        ''<meta name="language" content="en">''
     = (False, [Logged DEBUG (NotMarkedAsGerman ''en'')])\<close>
proof -
  let ?e = "sample_env no_response partial_content"
  have none: "\<forall>el \<in> set (descendants_of (BeautifulSoup ?e ''Hallo'')). \<not> language_meta el"
    by (simp add: sample_descendants(5) sample_metas)
  have pre: "\<forall>el \<in> set [Tag ''title'' [] [NavigableString ''Hallo''], NavigableString ''Hallo''].
               \<not> language_meta el"
    "\<forall>el \<in> set ([] :: element list). \<not> language_meta el"
    by (simp_all add: sample_metas)
  have a: "is_marked_as_german ?e ''Hallo'' = (False, [Logged WARNING NoLanguageTag])"
    using classifier_four_cases [of ?e "''Hallo''"] none by blast
  have b: \<open>is_marked_as_german ?e ''<meta name="language">''
             = (False, [Logged WARNING NoContentAttribute])\<close>
    using classifier_four_cases [THEN conjunct2, rule_format,
            OF conjI [OF sample_descendants(4) conjI [OF pre(2) sample_metas(3)]],
            THEN conjunct1, rule_format]
    by simp
  have c: "is_marked_as_german ?e sample_page = (True, [])"
    using classifier_four_cases [THEN conjunct2, rule_format,
            OF conjI [OF sample_descendants(1) conjI [OF pre(1) sample_metas(1)]],
            THEN conjunct2, THEN conjunct1, rule_format]
    by simp
  have d: \<open>is_marked_as_german ?e ''<meta name="language" content="en">''
             = (False, [Logged DEBUG (NotMarkedAsGerman ''en'')])\<close>
    using classifier_four_cases [THEN conjunct2, rule_format,
            OF conjI [OF sample_descendants(3) conjI [OF pre(2) sample_metas(2)]],
            THEN conjunct2, THEN conjunct2, rule_format, of "''en''"]
    by simp
  from a b c d show ?thesis by simp
qed

text \<open>
  Claim C10. Where two parsed documents each hold a \<^verbatim>\<open>meta\<close> element named \<^verbatim>\<open>language\<close>,
  and the first such elements of the two have the same \<^verbatim>\<open>content\<close> attribute, the
  classifier gives the same result and log on both: what follows the first element, other
  \<^verbatim>\<open>meta\<close> elements named \<^verbatim>\<open>language\<close> included, has no influence.
\<close>

theorem first_language_meta_decides:
  assumes "descendants_of (BeautifulSoup e html) = before @ tag # after"
    and "descendants_of (BeautifulSoup e' html') = before' @ tag' # after'"
    and "\<forall>el \<in> set before. \<not> language_meta el" and "\<forall>el \<in> set before'. \<not> language_meta el"
    and "language_meta tag" and "language_meta tag'"
    and "attrs_get tag ''content'' = attrs_get tag' ''content''"
  shows "is_marked_as_german e html = is_marked_as_german e' html'"
proof -
  have "soup_find (BeautifulSoup e html) ''meta'' [(''name'', ''language'')] = Some tag"
    using assms(1,3,5) by (rule soup_find_first)
  moreover have "soup_find (BeautifulSoup e' html') ''meta'' [(''name'', ''language'')] = Some tag'"
    using assms(2,4,6) by (rule soup_find_first)
  ultimately show ?thesis
    using assms(7) by (simp add: classify_found)
qed

theorem first_language_meta_decides_witness:
  \<open>is_marked_as_german (sample_env no_response partial_content) sample_page
     = is_marked_as_german (sample_env no_response partial_content)
         ''<meta name="language" content="de">''\<close>
proof -
  have pre: "\<forall>el \<in> set [Tag ''title'' [] [NavigableString ''Hallo''], NavigableString ''Hallo''].
               \<not> language_meta el"
    "\<forall>el \<in> set ([] :: element list). \<not> language_meta el"
    by (simp_all add: sample_metas)
  show ?thesis
    by (rule first_language_meta_decides [OF sample_descendants(1) sample_descendants(2)
               pre(1) pre(2) sample_metas(1) sample_metas(1) refl])
qed

section \<open>Properties of the index query\<close>

lemma fetch_index_failed:
  assumes "requests_get e (index_request e) = Inr response" and "raise_for_status response"
  shows "fetch_index e =
           (Inr [], [HttpGet (index_request e),
                     Logged CRITICAL (FailedToFetchIndex (status_code response))])"
  using assms by (simp add: fetch_index_def Let_def)

lemma fetch_index_decoded:
  assumes "requests_get e (index_request e) = Inr response" and "\<not> raise_for_status response"
  shows "fetch_index e =
     (case loads_all (json_loads e) (split (strip (resp_text response)) (CHR 0x0A)) of
        Inl x \<Rightarrow> (Inl x, [HttpGet (index_request e)])
      | Inr records \<Rightarrow>
          (Inr records, [HttpGet (index_request e), Logged INFO (ReceivedRecords (length records))]))"
  using assms by (simp add: fetch_index_def Let_def)

lemma loads_all_ok:
  "list_all2 (\<lambda>l v. loads l = Inr v) ls vs \<Longrightarrow> loads_all loads ls = Inr vs"
  by (induction ls vs rule: list_all2_induct) simp_all

lemma loads_all_fails:
  "\<forall>l \<in> set ok. \<exists>v. loads l = Inr v \<Longrightarrow> loads bad = Inl x \<Longrightarrow>
   loads_all loads (ok @ bad # rest) = Inl x"
  by (induction ok) auto

lemma split_acc_line:
  "sep \<notin> set l \<Longrightarrow> split_acc sep acc l = [rev acc @ l]"
  by (induction l arbitrary: acc) auto

lemma split_acc_lines:
  "sep \<notin> set l \<Longrightarrow> split_acc sep acc (l @ sep # rest) = (rev acc @ l) # split_acc sep [] rest"
  by (induction l arbitrary: acc) auto

lemma split_join_lines:
  "ls \<noteq> [] \<Longrightarrow> \<forall>l \<in> set ls. CHR 0x0A \<notin> set l \<Longrightarrow> split (join_lines ls) (CHR 0x0A) = ls"
proof (induction ls rule: join_lines.induct)
  case 1
  then show ?case by simp
next
  case (2 l)
  then show ?case by (simp add: split_def split_acc_line)
next
  case (3 l v va)
  then show ?case by (simp add: split_def split_acc_lines)
qed

lemma strip_surrounded:
  assumes "\<forall>c \<in> set lead. isspace c" and "\<forall>c \<in> set trail. isspace c"
    and "body \<noteq> []" and "\<not> isspace (hd body)" and "\<not> isspace (last body)"
  shows "strip (lead @ body @ trail) = body"
proof -
  have "dropWhile isspace (lead @ body @ trail) = dropWhile isspace (body @ trail)"
    using assms(1) by simp
  also have "\<dots> = body @ trail"
    using assms(3,4) by (cases body) simp_all
  finally have a: "dropWhile isspace (lead @ body @ trail) = body @ trail" .
  have "dropWhile isspace (rev trail @ rev body) = dropWhile isspace (rev body)"
    using assms(2) by (intro dropWhile_append2) simp
  also have "\<dots> = rev body"
    using assms(3,5) by (simp add: dropWhile_eq_self_iff hd_rev)
  finally show ?thesis by (simp add: strip_def a)
qed

lemma strip_plain:
  "body \<noteq> [] \<Longrightarrow> \<not> isspace (hd body) \<Longrightarrow> \<not> isspace (last body) \<Longrightarrow> strip body = body"
  using strip_surrounded [of "[]" "[]" body] by simp

lemma strip_blank: "\<forall>c \<in> set s. isspace c \<Longrightarrow> strip s = []"
proof -
  assume "\<forall>c \<in> set s. isspace c"
  then have d: "dropWhile isspace s = []" by (simp only: dropWhile_eq_Nil_conv)
  show ?thesis unfolding strip_def d by simp
qed

lemma loads_good_line: "json_loads_flat good_line = Inr good_record"
  by (simp add: json_loads_flat_def good_line_def good_record_def)

lemma loads_bad_line: "json_loads_flat bad_line = Inr bad_record"
  by (simp add: json_loads_flat_def bad_line_def bad_record_def)

lemma loads_empty: "json_loads_flat [] = Inl (JSONDecodeError [])"
  by (simp add: json_loads_flat_def)

lemma line_shape:
  "CHR 0x0A \<notin> set good_line" "good_line \<noteq> []" "\<not> isspace (hd good_line)"
  "\<not> isspace (last good_line)"
  "CHR 0x0A \<notin> set bad_line" "bad_line \<noteq> []" "\<not> isspace (hd bad_line)"
  "\<not> isspace (last bad_line)"
  by (simp_all add: good_line_def bad_line_def isspace_def)

lemma sample_index_get:
  "requests_get (sample_env ir pr) (index_request (sample_env ir pr)) = Inr ir"
  by (simp add: sample_env_sel index_request_def)

text \<open>
  Claim C6, as stated, fails: the status 304 is no success status, but
  \<^verbatim>\<open>raise_for_status\<close> accepts it (as it does every status outside 400 to 599), so the
  body is decoded; with an empty body the decoder's error leaves \<^verbatim>\<open>fetch_index\<close> and
  \<^verbatim>\<open>main\<close>, and nothing is logged.
\<close>

theorem not_modified_raises:
  "\<not> raise_for_status not_modified
   \<and> fetch_index (sample_env not_modified partial_content)
       = (Inl (JSONDecodeError []),
          [HttpGet (index_request (sample_env not_modified partial_content))])
   \<and> main (sample_env not_modified partial_content)
       = (Some (JSONDecodeError []),
          [HttpGet (index_request (sample_env not_modified partial_content))])"
proof -
  have a: "\<not> raise_for_status not_modified"
    by (simp add: raise_for_status_def not_modified_def)
  have l: "split (strip (resp_text not_modified)) (CHR 0x0A) = ['''']"
    by (simp add: not_modified_def strip_def split_def)
  have f: "fetch_index (sample_env not_modified partial_content)
       = (Inl (JSONDecodeError []),
          [HttpGet (index_request (sample_env not_modified partial_content))])"
    by (simp add: fetch_index_decoded [OF sample_index_get a] l sample_env_sel loads_empty)
  from a f show ?thesis by (simp add: main_def)
qed

text \<open>
  Claim C6, amended. When the index answers with a status that \<^verbatim>\<open>raise_for_status\<close>
  rejects (400 to 599, for instance 500), \<^verbatim>\<open>fetch_index\<close> returns the empty list without
  raising, after logging the status at critical severity; \<^verbatim>\<open>main\<close> then ends normally,
  and the index query and that log entry are all its effects: no page is requested, nothing
  is classified.
\<close>

theorem index_failure_fails_soft:
  assumes "requests_get e (index_request e) = Inr response" and "raise_for_status response"
  shows "fetch_index e =
           (Inr [], [HttpGet (index_request e),
                     Logged CRITICAL (FailedToFetchIndex (status_code response))])
       \<and> main e =
           (None, [HttpGet (index_request e),
                   Logged CRITICAL (FailedToFetchIndex (status_code response))])"
  using fetch_index_failed [OF assms] by (simp add: main_def)

theorem index_failure_fails_soft_witness:
  "raise_for_status server_error
   \<and> main (sample_env server_error partial_content) =
       (None, [HttpGet (index_request (sample_env server_error partial_content)),
               Logged CRITICAL (FailedToFetchIndex 500)])"
proof -
  have a: "raise_for_status server_error"
    by (simp add: raise_for_status_def server_error_def)
  have b: "status_code server_error = 500"
    by (simp add: server_error_def)
  from index_failure_fails_soft [OF sample_index_get a, of partial_content] a b
  show ?thesis by simp
qed

text \<open>
  Claim C7, as stated, fails: an empty body with status 200 is stripped to the empty text,
  which splits into one empty line; the decoder rejects it, and the error leaves
  \<^verbatim>\<open>fetch_index\<close>. An empty line between two records does the same.
\<close>

theorem empty_line_raises:
  "fst (fetch_index (sample_env (index_ok []) partial_content)) = Inl (JSONDecodeError [])
   \<and> fst (fetch_index (sample_env (index_ok (good_line @ [CHR 0x0A, CHR 0x0A] @ good_line))
                          partial_content)) = Inl (JSONDecodeError [])"
proof -
  have ok: "\<not> raise_for_status (index_ok body)" for body
    by (simp add: raise_for_status_def index_ok_def)
  have a: "split (strip (resp_text (index_ok []))) (CHR 0x0A) = ['''']"
    by (simp add: index_ok_def strip_def split_def)
  have s: "strip (join_lines [good_line, [], good_line]) = join_lines [good_line, [], good_line]"
    by (rule strip_plain) (simp_all add: line_shape)
  have sp: "split (join_lines [good_line, [], good_line]) (CHR 0x0A) = [good_line] @ [] # [good_line]"
    using split_join_lines [of "[good_line, [], good_line]"] by (simp add: line_shape)
  have r: "resp_text (index_ok (good_line @ [CHR 0x0A, CHR 0x0A] @ good_line))
          = join_lines [good_line, [], good_line]"
    by (simp add: index_ok_def)
  have b: "split (strip (resp_text (index_ok (good_line @ [CHR 0x0A, CHR 0x0A] @ good_line))))
                  (CHR 0x0A) = [good_line] @ [] # [good_line]"
    unfolding r s sp ..
  have c: "loads_all json_loads_flat ([good_line] @ [] # [good_line]) = Inl (JSONDecodeError [])"
    by (rule loads_all_fails) (simp_all add: loads_good_line loads_empty)
  show ?thesis
    by (simp add: fetch_index_decoded [OF sample_index_get ok] a b c sample_env_sel loads_empty
             del: append.simps)
qed

text \<open>
  Claim C7, amended. For an index response that \<^verbatim>\<open>raise_for_status\<close> accepts, the body
  is stripped of surrounding whitespace and split at the line feeds, and every line is
  decoded. When every line decodes, \<^verbatim>\<open>fetch_index\<close> returns the decoded records, one per
  line in the order of the response, and logs their number at info severity. When a line
  does not decode, the decoder's exception leaves \<^verbatim>\<open>fetch_index\<close>. The lines of a body that
  is records joined by line feeds, with whitespace around it, are these records' texts; a
  body of whitespace only has one line, the empty text.
\<close>

theorem index_lines_decoded_in_order:
  assumes "requests_get e (index_request e) = Inr response" and "\<not> raise_for_status response"
    and "lines = split (strip (resp_text response)) (CHR 0x0A)"
  shows "(list_all2 (\<lambda>l v. json_loads e l = Inr v) lines records \<longrightarrow>
            fetch_index e =
              (Inr records, [HttpGet (index_request e), Logged INFO (ReceivedRecords (length lines))]))
       \<and> (lines = ok @ bad # rest \<and> (\<forall>l \<in> set ok. \<exists>v. json_loads e l = Inr v)
            \<and> json_loads e bad = Inl x \<longrightarrow>
            fetch_index e = (Inl x, [HttpGet (index_request e)]))
       \<and> (resp_text response = lead @ join_lines ls @ trail
            \<and> (\<forall>c \<in> set lead. isspace c) \<and> (\<forall>c \<in> set trail. isspace c)
            \<and> ls \<noteq> [] \<and> (\<forall>l \<in> set ls. CHR 0x0A \<notin> set l)
            \<and> join_lines ls \<noteq> [] \<and> \<not> isspace (hd (join_lines ls))
            \<and> \<not> isspace (last (join_lines ls)) \<longrightarrow>
            lines = ls)
       \<and> ((\<forall>c \<in> set (resp_text response). isspace c) \<longrightarrow> lines = [''''])"
proof (intro conjI impI)
  assume "list_all2 (\<lambda>l v. json_loads e l = Inr v) lines records"
  then have "loads_all (json_loads e) lines = Inr records" "length records = length lines"
    by (simp_all add: loads_all_ok list_all2_lengthD)
  then show "fetch_index e =
      (Inr records, [HttpGet (index_request e), Logged INFO (ReceivedRecords (length lines))])"
    by (simp add: fetch_index_decoded [OF assms(1,2)] assms(3) [symmetric])
next
  assume "lines = ok @ bad # rest \<and> (\<forall>l \<in> set ok. \<exists>v. json_loads e l = Inr v)
            \<and> json_loads e bad = Inl x"
  then have "loads_all (json_loads e) lines = Inl x"
    by (simp add: loads_all_fails)
  then show "fetch_index e = (Inl x, [HttpGet (index_request e)])"
    by (simp add: fetch_index_decoded [OF assms(1,2)] assms(3) [symmetric])
next
  assume h: "resp_text response = lead @ join_lines ls @ trail
            \<and> (\<forall>c \<in> set lead. isspace c) \<and> (\<forall>c \<in> set trail. isspace c)
            \<and> ls \<noteq> [] \<and> (\<forall>l \<in> set ls. CHR 0x0A \<notin> set l)
            \<and> join_lines ls \<noteq> [] \<and> \<not> isspace (hd (join_lines ls))
            \<and> \<not> isspace (last (join_lines ls))"
  then have "strip (resp_text response) = join_lines ls"
    by (simp add: strip_surrounded)
  with h show "lines = ls"
    by (simp add: assms(3) split_join_lines)
next
  assume "\<forall>c \<in> set (resp_text response). isspace c"
  then have "strip (resp_text response) = []" by (rule strip_blank)
  then show "lines = ['''']" by (simp add: assms(3) split_def)
qed

lemma isspace_some: "isspace (CHR 0x0A)" "isspace (CHR 0x20)"
  by (simp_all add: isspace_def)

lemma sample_index_ok: "\<not> raise_for_status (index_ok body)"
  by (simp add: raise_for_status_def index_ok_def)

theorem index_lines_decoded_in_order_witness:
  "fetch_index (sample_env (index_ok (join_lines [good_line, bad_line] @ [CHR 0x0A])) partial_content)
     = (Inr [good_record, bad_record],
        [HttpGet (index_request (sample_env (index_ok (join_lines [good_line, bad_line] @ [CHR 0x0A]))
                                   partial_content)),
         Logged INFO (ReceivedRecords 2)])
   \<and> fetch_index (sample_env (index_ok [CHR 0x20]) partial_content)
     = (Inl (JSONDecodeError []),
        [HttpGet (index_request (sample_env (index_ok [CHR 0x20]) partial_content))])"
proof -
  let ?b = "index_ok (join_lines [good_line, bad_line] @ [CHR 0x0A])"
  let ?e = "sample_env ?b partial_content"
  let ?w = "index_ok [CHR 0x20]"
  let ?f = "sample_env ?w partial_content"
  note t = index_lines_decoded_in_order [OF sample_index_get [of ?b partial_content]
               sample_index_ok refl]
  note u = index_lines_decoded_in_order [OF sample_index_get [of ?w partial_content]
               sample_index_ok refl]
  have lay: "resp_text ?b = [] @ join_lines [good_line, bad_line] @ [CHR 0x0A]
      \<and> (\<forall>c \<in> set []. isspace c) \<and> (\<forall>c \<in> set [CHR 0x0A]. isspace c)
      \<and> [good_line, bad_line] \<noteq> [] \<and> (\<forall>l \<in> set [good_line, bad_line]. CHR 0x0A \<notin> set l)
      \<and> join_lines [good_line, bad_line] \<noteq> [] \<and> \<not> isspace (hd (join_lines [good_line, bad_line]))
      \<and> \<not> isspace (last (join_lines [good_line, bad_line]))"
    by (simp add: index_ok_def line_shape isspace_some)
  have l: "split (strip (resp_text ?b)) (CHR 0x0A) = [good_line, bad_line]"
    using t [THEN conjunct2, THEN conjunct2, THEN conjunct1, THEN mp,
             OF lay] .
  have d: "list_all2 (\<lambda>l v. json_loads ?e l = Inr v) (split (strip (resp_text ?b)) (CHR 0x0A))
             [good_record, bad_record]"
    unfolding l by (simp add: sample_env_sel loads_good_line loads_bad_line)
  have a: "fetch_index ?e = (Inr [good_record, bad_record],
             [HttpGet (index_request ?e), Logged INFO (ReceivedRecords 2)])"
    using t [THEN conjunct1, THEN mp, OF d] unfolding l by simp
  have blank: "\<forall>c \<in> set (resp_text ?w). isspace c"
    by (simp add: index_ok_def isspace_some)
  have m: "split (strip (resp_text ?w)) (CHR 0x0A) = ['''']"
    using u [THEN conjunct2, THEN conjunct2, THEN conjunct2, THEN mp,
             OF blank] .
  have bad: "split (strip (resp_text ?w)) (CHR 0x0A) = [] @ [] # []
      \<and> (\<forall>l \<in> set []. \<exists>v. json_loads ?f l = Inr v)
      \<and> json_loads ?f [] = Inl (JSONDecodeError [])"
    unfolding m by (simp add: sample_env_sel loads_empty)
  have b: "fetch_index ?f = (Inl (JSONDecodeError []), [HttpGet (index_request ?f)])"
    using u [THEN conjunct2, THEN conjunct1, THEN mp, OF bad] .
  from a b show ?thesis by blast
qed

section \<open>Properties of the main loop\<close>

lemma for_records_append:
  "for_records e before = (None, fx) \<Longrightarrow>
   for_records e (before @ rest) = (case for_records e rest of (r, gx) \<Rightarrow> (r, fx @ gx))"
proof (induction before arbitrary: fx)
  case Nil
  then show ?case by (simp split: prod.split)
next
  case (Cons r before)
  then show ?case
    by (auto split: prod.splits option.splits)
qed

lemma loop_body_raises:
  "call_arguments record = Inl x \<Longrightarrow> loop_body e record = (Some x, [])"
  by (simp add: loop_body_def)

lemma call_arguments_bad_number:
  assumes "record ''urlkey'' = Some urlkey" and "record ''filename'' = Some file_name"
    and "record ''offset'' = Some offset_text"
    and "py_int offset_text = Inl (ValueError offset_text)
         \<or> (record ''length'' = Some length_text \<and> py_int length_text = Inl (ValueError length_text))"
  shows "call_arguments record =
           Inl (ValueError (if py_int offset_text = Inl (ValueError offset_text)
                            then offset_text else length_text))"
proof (cases "py_int offset_text = Inl (ValueError offset_text)")
  case True
  then show ?thesis
    using assms(1-3) by (simp add: call_arguments_def getitem_def)
next
  case False
  then obtain n where n: "py_int offset_text = Inr n"
    by (auto simp: py_int_def split: option.splits)
  from False assms(4) have "record ''length'' = Some length_text"
    "py_int length_text = Inl (ValueError length_text)" by auto
  with False n show ?thesis
    using assms(1-3) by (simp add: call_arguments_def getitem_def)
qed

lemma sample_lines:
  assumes "ls \<noteq> []" and "\<forall>l \<in> set ls. CHR 0x0A \<notin> set l" and "join_lines ls \<noteq> []"
    and "\<not> isspace (hd (join_lines ls))" and "\<not> isspace (last (join_lines ls))"
  shows "split (strip (resp_text (index_ok (join_lines ls @ [CHR 0x0A])))) (CHR 0x0A) = ls"
proof -
  have "strip ([] @ join_lines ls @ [CHR 0x0A]) = join_lines ls"
    by (rule strip_surrounded) (simp_all add: assms isspace_some)
  then show ?thesis
    by (simp add: index_ok_def split_join_lines assms)
qed

lemma sample_fetch_index:
  assumes "split (strip (resp_text (index_ok body))) (CHR 0x0A) = ls"
    and "list_all2 (\<lambda>l v. json_loads_flat l = Inr v) ls records"
  shows "fetch_index (sample_env (index_ok body) pr) =
           (Inr records, [HttpGet (index_request (sample_env (index_ok body) pr)),
                          Logged INFO (ReceivedRecords (length records))])"
  using loads_all_ok [OF assms(2)]
  by (simp add: fetch_index_decoded [OF sample_index_get sample_index_ok] assms(1) sample_env_sel)

lemma sample_arguments:
  "call_arguments good_record = Inr (''crawl-data/a.warc.gz'', 100, 50)"
  "call_arguments bad_record = Inl (ValueError ''abc'')"
  by (simp_all add: call_arguments_def getitem_def good_record_def bad_record_def py_int_def
                    int_strip_def int_space_def signed_digits_def digit_val_def)

lemma sample_classified:
  "is_marked_as_german (sample_env ir pr) sample_page = (True, [])"
proof -
  have "soup_find (BeautifulSoup (sample_env ir pr) sample_page) ''meta'' [(''name'', ''language'')]
          = Some (Tag ''meta'' [(''name'', ''language''), (''content'', ''de'')] [])"
    by (rule soup_find_first [OF sample_descendants(1)]) (simp_all add: sample_metas)
  from classify_found [OF this] show ?thesis by simp
qed

lemma sample_loop_body:
  "loop_body (sample_env ir partial_content) good_record =
     (None, [Logged INFO (DownloadFrom ''https://data.commoncrawl.org/crawl-data/a.warc.gz''),
             HttpGet (page_request (sample_env ir partial_content) ''crawl-data/a.warc.gz'' 100 50),
             Logged SUCCESS NowWhat])"
proof -
  have "sample_page \<noteq> []" by (simp add: sample_page_def)
  then show ?thesis
    by (simp add: loop_body_def sample_arguments sample_fetch sample_classified)
qed

text \<open>
  Claim C8, as stated, fails: in a batch of two records whose first has the offset text
  \<^verbatim>\<open>abc\<close>, the \<^verbatim>\<open>ValueError\<close> of the conversion leaves \<^verbatim>\<open>main\<close>, and the only request of the
  run is the index query; the second record, which alone would be fetched, is never reached.
\<close>

theorem bad_offset_aborts_batch:
  "main (sample_env (index_ok (join_lines [bad_line, good_line] @ [CHR 0x0A])) partial_content)
     = (Some (ValueError ''abc''),
        [HttpGet (index_request (sample_env (index_ok (join_lines [bad_line, good_line] @ [CHR 0x0A]))
                                   partial_content)),
         Logged INFO (ReceivedRecords 2)])
   \<and> requests_sent (snd (for_records
        (sample_env (index_ok (join_lines [bad_line, good_line] @ [CHR 0x0A])) partial_content)
        [good_record]))
     = [page_request (sample_env (index_ok (join_lines [bad_line, good_line] @ [CHR 0x0A]))
                        partial_content) ''crawl-data/a.warc.gz'' 100 50]"
proof -
  let ?b = "join_lines [bad_line, good_line] @ [CHR 0x0A]"
  let ?e = "sample_env (index_ok ?b) partial_content"
  have l: "split (strip (resp_text (index_ok ?b))) (CHR 0x0A) = [bad_line, good_line]"
    by (rule sample_lines) (simp_all add: line_shape)
  have d: "list_all2 (\<lambda>l v. json_loads_flat l = Inr v) [bad_line, good_line]
             [bad_record, good_record]"
    by (simp add: loads_good_line loads_bad_line)
  have f: "fetch_index ?e = (Inr [bad_record, good_record],
             [HttpGet (index_request ?e), Logged INFO (ReceivedRecords 2)])"
    using sample_fetch_index [OF l d, of partial_content] by simp
  have a: "main ?e = (Some (ValueError ''abc''),
             [HttpGet (index_request ?e), Logged INFO (ReceivedRecords 2)])"
    unfolding main_def f by (simp add: loop_body_raises sample_arguments)
  have b: "requests_sent (snd (for_records ?e [good_record]))
             = [page_request ?e ''crawl-data/a.warc.gz'' 100 50]"
    by (simp add: sample_loop_body del: join_lines.simps)
  from a b show ?thesis by blast
qed

text \<open>
  Claim C8, amended. A record whose offset text, or whose length text, \<^verbatim>\<open>int\<close> rejects
  raises \<^verbatim>\<open>ValueError\<close>, and nothing in \<^verbatim>\<open>main\<close> catches it: the record is abandoned
  before any request is sent for it, and the run ends there with the exception. The
  effects of the run are those of the index query and of the records before it; the records
  after it in the batch are not processed.
\<close>

theorem unparseable_number_ends_run:
  assumes "fetch_index e = (Inr records, ix)"
    and "take 20 records = before @ record # after"
    and "for_records e before = (None, fx)"
    and "record ''urlkey'' = Some urlkey" and "record ''filename'' = Some file_name"
    and "record ''offset'' = Some offset_text"
    and "py_int offset_text = Inl (ValueError offset_text)
         \<or> (record ''length'' = Some length_text \<and> py_int length_text = Inl (ValueError length_text))"
  shows "main e =
           (Some (ValueError (if py_int offset_text = Inl (ValueError offset_text)
                              then offset_text else length_text)),
            ix @ fx)"
proof -
  let ?x = "ValueError (if py_int offset_text = Inl (ValueError offset_text)
                        then offset_text else length_text)"
  have "call_arguments record = Inl ?x"
    using assms(4-7) by (rule call_arguments_bad_number)
  then have "loop_body e record = (Some ?x, [])"
    by (rule loop_body_raises)
  then have "for_records e (record # after) = (Some ?x, [])"
    by simp
  with for_records_append [OF assms(3), of "record # after"]
  have "for_records e (take 20 records) = (Some ?x, fx)"
    by (simp add: assms(2))
  then show ?thesis
    by (simp add: main_def assms(1))
qed

theorem unparseable_number_ends_run_witness:
  "main (sample_env (index_ok (join_lines [good_line, bad_line, good_line] @ [CHR 0x0A]))
           partial_content)
     = (Some (ValueError ''abc''),
        [HttpGet (index_request
                    (sample_env (index_ok (join_lines [good_line, bad_line, good_line] @ [CHR 0x0A]))
                       partial_content)),
         Logged INFO (ReceivedRecords 3),
         Logged INFO (DownloadFrom ''https://data.commoncrawl.org/crawl-data/a.warc.gz''),
         HttpGet (page_request
                    (sample_env (index_ok (join_lines [good_line, bad_line, good_line] @ [CHR 0x0A]))
                       partial_content) ''crawl-data/a.warc.gz'' 100 50),
         Logged SUCCESS NowWhat])"
proof -
  let ?b = "join_lines [good_line, bad_line, good_line] @ [CHR 0x0A]"
  let ?e = "sample_env (index_ok ?b) partial_content"
  have l: "split (strip (resp_text (index_ok ?b))) (CHR 0x0A) = [good_line, bad_line, good_line]"
    by (rule sample_lines) (simp_all add: line_shape)
  have d: "list_all2 (\<lambda>l v. json_loads_flat l = Inr v) [good_line, bad_line, good_line]
             [good_record, bad_record, good_record]"
    by (simp add: loads_good_line loads_bad_line)
  have f: "fetch_index ?e = (Inr [good_record, bad_record, good_record],
             [HttpGet (index_request ?e), Logged INFO (ReceivedRecords 3)])"
    using sample_fetch_index [OF l d, of partial_content] by simp
  have t: "take 20 [good_record, bad_record, good_record] = [good_record] @ bad_record # [good_record]"
    by simp
  have p: "for_records ?e [good_record] =
      (None, [Logged INFO (DownloadFrom ''https://data.commoncrawl.org/crawl-data/a.warc.gz''),
              HttpGet (page_request ?e ''crawl-data/a.warc.gz'' 100 50),
              Logged SUCCESS NowWhat])"
    by (simp add: sample_loop_body del: join_lines.simps)
  have k: "bad_record ''urlkey'' = Some ''de,broken)/''"
    "bad_record ''filename'' = Some ''crawl-data/b.warc.gz''"
    "bad_record ''offset'' = Some ''abc''"
    by (simp_all add: bad_record_def)
  have v: "py_int ''abc'' = Inl (ValueError ''abc'')"
    by (simp add: py_int_def int_strip_def int_space_def signed_digits_def digit_val_def)
  from unparseable_number_ends_run [OF f t p k disjI1 [OF v]] v
  show ?thesis by simp
qed

end
